theory Spec2Isabelle
  imports Main "HOL-Library.Word"
begin

section \<open>Values exchanged with the session service\<close>

text \<open>
  The values that \<^verbatim>\<open>response.json()\<close> can produce. A JSON object is the list of its
  members, each key once; \<open>JNull\<close> is Python's \<^verbatim>\<open>None\<close>. Only integral numbers are represented:
  no function below computes with a number.
\<close>

datatype json =
    JNull
  | JBool bool
  | JNum int
  | JStr string
  | JArr "json list"
  | JObj "(string \<times> json) list"

text \<open>Python's truth value of such a value (\<^verbatim>\<open>if session_details:\<close>).\<close>

fun truthy :: "json \<Rightarrow> bool" where
  "truthy JNull = False"
| "truthy (JBool b) = b"
| "truthy (JNum n) = (n \<noteq> 0)"
| "truthy (JStr s) = (s \<noteq> [])"
| "truthy (JArr xs) = (xs \<noteq> [])"
| "truthy (JObj kv) = (kv \<noteq> [])"

text \<open>The exceptions that the two scripts can meet. All of them are subclasses of
  \<^verbatim>\<open>Exception\<close> except \<open>CancelledError\<close>, which asyncio raises at an \<^verbatim>\<open>await\<close>
  of a cancelled task and which derives from \<^verbatim>\<open>BaseException\<close> only.\<close>

datatype exn =
    HTTPError int
  | RequestException
  | JSONDecodeError
  | AttributeError
  | KeyError
  | TypeError
  | UnboundLocalError
  | CollaboratorError
  | CancelledError

fun is_Exception :: "exn \<Rightarrow> bool" where
  "is_Exception CancelledError = False"
| "is_Exception e = True"

text \<open>\<^verbatim>\<open>d.get(key, default)\<close>: an attribute that only a dict has.\<close>

fun dict_get :: "json \<Rightarrow> string \<Rightarrow> json \<Rightarrow> exn + json" where
  "dict_get (JObj kv) k d = Inr (case map_of kv k of None \<Rightarrow> d | Some v \<Rightarrow> v)"
| "dict_get j k d = Inl AttributeError"

text \<open>\<^verbatim>\<open>d[key]\<close> with a string key: \<^verbatim>\<open>KeyError\<close> on a dict without the key,
  \<^verbatim>\<open>TypeError\<close> on every other value.\<close>

fun subscript :: "json \<Rightarrow> string \<Rightarrow> exn + json" where
  "subscript (JObj kv) k = (case map_of kv k of None \<Rightarrow> Inl KeyError | Some v \<Rightarrow> Inr v)"
| "subscript j k = Inl TypeError"

section \<open>Requests, responses and the trace of a run\<close>

datatype http_method = GET | POST

text \<open>One call of \<^verbatim>\<open>requests.get\<close> or \<^verbatim>\<open>requests.post\<close>: the URL, the \<^verbatim>\<open>json=\<close>
  body and the \<^verbatim>\<open>timeout=\<close> argument in seconds (\<open>None\<close> when the call passes none,
  which makes the library wait without bound).\<close>

record request =
  rq_method :: http_method
  rq_url :: string
  rq_json :: "json option"
  rq_timeout :: "nat option"

text \<open>What such a call does: it raises a transport error (connection refused, timed out,
  malformed URL; all are \<^verbatim>\<open>RequestException\<close>s) or returns a response, of which the
  scripts read the status code and the decoded body (\<open>None\<close> when the body is not JSON,
  where \<^verbatim>\<open>response.json()\<close> raises).\<close>

datatype http_result =
    TransportFailure
  | Response (status_code: int) (body: "json option")

text \<open>\<^verbatim>\<open>Response.raise_for_status()\<close> of the requests library raises \<^verbatim>\<open>HTTPError\<close>
  for the client and server error statuses, 400 to 599, and returns otherwise.\<close>

definition raise_for_status :: "int \<Rightarrow> bool" where
  "raise_for_status st = (400 \<le> st \<and> st < 600)"

datatype level = INFO | WARNING | ERROR

datatype message =
    CreatingSession string
  | SessionCreated string json json json
  | SessionReleased string
  | ReleaseStatus int
  | ReleaseFailed exn
  | BrowserConnected
  | RunningAgent
  | AgentCompleted
  | WaitingBeforeCleanup
  | AgentFailed exn
  | AgentTraceback exn
  | BrowserClosed
  | CloseFailed exn

text \<open>The observable effects of a run, in order: the HTTP requests issued, the log
  records, and the calls into the browser and agent collaborators.\<close>

datatype event =
    Request request
  | Log level message
  | Attach json
  | AgentRun
  | Sleep nat
  | CloseBrowser
  | Playwright json

type_synonym trace = "event list"

fun requests_of :: "trace \<Rightarrow> request list" where
  "requests_of [] = []"
| "requests_of (Request q # t) = q # requests_of t"
| "requests_of (e # t) = requests_of t"

section \<open>Session identifiers\<close>

text \<open>\<^verbatim>\<open>str(uuid.uuid4())\<close>: the 128-bit value of the UUID printed as 32 lower-case
  hexadecimal digits in groups of 8, 4, 4, 4 and 12.\<close>

definition hex_char :: "nat \<Rightarrow> char" where
  "hex_char d = ''0123456789abcdef'' ! d"

fun hex_pad :: "nat \<Rightarrow> nat \<Rightarrow> string" where
  "hex_pad 0 n = []"
| "hex_pad (Suc k) n = hex_pad k (n div 16) @ [hex_char (n mod 16)]"

definition str_uuid :: "128 word \<Rightarrow> string" where
  "str_uuid u =
     (let h = hex_pad 32 (unat u)
      in take 8 h @ ''-'' @ take 4 (drop 8 h) @ ''-'' @ take 4 (drop 12 h) @ ''-''
         @ take 4 (drop 16 h) @ ''-'' @ drop 20 h)"

section \<open>The session client of ai-agent.py\<close>

record SteelBrowserSession =
  api_url :: string
  session_id :: "string option"
  cdp_url :: json
  session_data :: json

definition init :: "string \<Rightarrow> SteelBrowserSession" where
  "init url = \<lparr>api_url = url, session_id = None, cdp_url = JNull, session_data = JNull\<rparr>"

text \<open>An f-string prints an unset id as \<^verbatim>\<open>None\<close>.\<close>

fun fmt_id :: "string option \<Rightarrow> string" where
  "fmt_id None = ''None''"
| "fmt_id (Some i) = i"

definition create_request :: "string \<Rightarrow> string \<Rightarrow> request" where
  "create_request url i =
     \<lparr>rq_method = POST, rq_url = url @ ''/v1/sessions'',
      rq_json = Some (JObj [(''sessionId'', JStr i)]), rq_timeout = Some 30\<rparr>"

definition details_request :: "string \<Rightarrow> string \<Rightarrow> request" where
  "details_request url i =
     \<lparr>rq_method = GET, rq_url = url @ ''/v1/sessions/'' @ i,
      rq_json = None, rq_timeout = Some 10\<rparr>"

definition release_request :: "string \<Rightarrow> string \<Rightarrow> request" where
  "release_request url i =
     \<lparr>rq_method = POST, rq_url = url @ ''/v1/sessions/'' @ i @ ''/release'',
      rq_json = None, rq_timeout = Some 10\<rparr>"

text \<open>\<^verbatim>\<open>create_session\<close>, with the value \<open>u\<close> that \<^verbatim>\<open>uuid.uuid4()\<close> returns and the
  outcome \<open>r\<close> of its one \<^verbatim>\<open>requests.post\<close>. The id is stored before the request goes
  out; an exception leaves the method at the point where it is raised, with the fields
  written so far.\<close>

definition create_session ::
  "http_result \<Rightarrow> 128 word \<Rightarrow> SteelBrowserSession \<Rightarrow> trace
    \<Rightarrow> (exn + json) \<times> SteelBrowserSession \<times> trace" where
  "create_session r u s t =
     (let i = str_uuid u;
          s1 = s\<lparr>session_id := Some i\<rparr>;
          t1 = t @ [Log INFO (CreatingSession i), Request (create_request (api_url s1) i)]
      in case r of
           TransportFailure \<Rightarrow> (Inl RequestException, s1, t1)
         | Response st b \<Rightarrow>
             if raise_for_status st then (Inl (HTTPError st), s1, t1)
             else (case b of
                     None \<Rightarrow> (Inl JSONDecodeError, s1, t1)
                   | Some j \<Rightarrow>
                       (let s2 = s1\<lparr>session_data := j\<rparr>
                        in case dict_get j ''websocketUrl'' (JStr ''ws://localhost:3000/'') of
                             Inl e \<Rightarrow> (Inl e, s2, t1)
                           | Inr c \<Rightarrow>
                               (let s3 = s2\<lparr>cdp_url := c\<rparr>
                                in case dict_get j ''debugUrl'' JNull of
                                     Inl e \<Rightarrow> (Inl e, s3, t1)
                                   | Inr d \<Rightarrow>
                                       (case dict_get j ''sessionViewerUrl'' JNull of
                                          Inl e \<Rightarrow> (Inl e, s3, t1)
                                        | Inr v \<Rightarrow>
                                            (Inr c, s3,
                                             t1 @ [Log INFO (SessionCreated i c d v)]))))))"

text \<open>\<^verbatim>\<open>get_session_details\<close>, with the outcome \<open>r\<close> of its \<^verbatim>\<open>requests.get\<close>: no field
  is written, and nothing is caught.\<close>

definition get_session_details ::
  "http_result \<Rightarrow> SteelBrowserSession \<Rightarrow> trace \<Rightarrow> (exn + json) \<times> trace" where
  "get_session_details r s t =
     (let t1 = t @ [Request (details_request (api_url s) (fmt_id (session_id s)))]
      in case r of
           TransportFailure \<Rightarrow> (Inl RequestException, t1)
         | Response st b \<Rightarrow>
             if st = 200 then
               (case b of None \<Rightarrow> (Inl JSONDecodeError, t1) | Some j \<Rightarrow> (Inr j, t1))
             else (Inr JNull, t1))"

text \<open>\<^verbatim>\<open>not self.session_id\<close>: true of \<^verbatim>\<open>None\<close> and of the empty string.\<close>

fun falsy_id :: "string option \<Rightarrow> bool" where
  "falsy_id None = True"
| "falsy_id (Some i) = (i = [])"

text \<open>The body of the \<^verbatim>\<open>try\<close> block of \<^verbatim>\<open>release_session\<close>, with the outcome \<open>r\<close> of
  its \<^verbatim>\<open>requests.post\<close>.\<close>

definition release_attempt ::
  "http_result \<Rightarrow> SteelBrowserSession \<Rightarrow> trace \<Rightarrow> (exn + unit) \<times> trace" where
  "release_attempt r s t =
     (let t1 = t @ [Request (release_request (api_url s) (fmt_id (session_id s)))]
      in case r of
           TransportFailure \<Rightarrow> (Inl RequestException, t1)
         | Response st b \<Rightarrow>
             if st = 200 then (Inr (), t1 @ [Log INFO (SessionReleased (fmt_id (session_id s)))])
             else (Inr (), t1 @ [Log WARNING (ReleaseStatus st)]))"

text \<open>\<^verbatim>\<open>release_session\<close>: the guard, then the \<^verbatim>\<open>try\<close> block under
  \<^verbatim>\<open>except Exception\<close>, which lets through only what is not an \<^verbatim>\<open>Exception\<close>. Behind
  the guard no request is made and \<open>r\<close> is not looked at.\<close>

definition release_session ::
  "http_result \<Rightarrow> SteelBrowserSession \<Rightarrow> trace \<Rightarrow> (exn + unit) \<times> trace" where
  "release_session r s t =
     (if falsy_id (session_id s) then (Inr (), t)
      else (case release_attempt r s t of
              (Inr x, t1) \<Rightarrow> (Inr (), t1)
            | (Inl e, t1) \<Rightarrow>
                if is_Exception e then (Inr (), t1 @ [Log ERROR (ReleaseFailed e)])
                else (Inl e, t1)))"

text \<open>The lifecycle state of the spec is no field of the class, and a release writes
  nothing. What the object records of it: \<^verbatim>\<open>__init__\<close> leaves the connection endpoint
  unset and only a creation that went through stores one.\<close>

datatype lifecycle = Uncreated | Active

definition state :: "SteelBrowserSession \<Rightarrow> lifecycle" where
  "state s = (if cdp_url s = JNull then Uncreated else Active)"

section \<open>The runs of ai-agent.py\<close>

text \<open>A call into a collaborator (the browser, the agent, the event loop) returns or
  raises.\<close>

datatype outcome = Returns | Raises exn

text \<open>What a run meets outside the program: the UUID drawn, the outcome of each HTTP
  call it may make, and the outcome of each call into a collaborator.\<close>

record environment =
  uuid4 :: "128 word"
  post_sessions :: http_result
  get_session :: http_result
  post_release :: http_result
  new_browser :: outcome
  new_agent :: outcome
  agent_run :: outcome
  sleep :: outcome
  browser_close :: outcome
  playwright :: outcome

text \<open>A run in which the service answers every call with 200 and the session's URLs,
  and every collaborator returns.\<close>

definition served :: environment where
  "served =
     \<lparr>uuid4 = 0x1b4e28ba2fa14d3b8f3a6c1d2e3f4a5b,
      post_sessions = Response 200 (Some (JObj [(''websocketUrl'', JStr ''ws://svc/cdp/S1''),
                                                (''sessionViewerUrl'', JStr ''http://svc/view/S1''),
                                                (''debugUrl'', JStr ''http://svc/debug/S1'')])),
      get_session = Response 200 (Some (JObj [(''sessionViewerUrl'', JStr ''http://svc/view/S1''),
                                              (''debugUrl'', JStr ''http://svc/debug/S1'')])),
      post_release = Response 200 None,
      new_browser = Returns, new_agent = Returns, agent_run = Returns,
      sleep = Returns, browser_close = Returns, playwright = Returns\<rparr>"

text \<open>The \<^verbatim>\<open>try\<close> block of \<^verbatim>\<open>run_ai_agent_task\<close>. It yields the exception that ended
  it, if one did, and whether the local \<^verbatim>\<open>browser\<close> has been bound by then.\<close>

definition try_block ::
  "environment \<Rightarrow> SteelBrowserSession \<Rightarrow> trace
    \<Rightarrow> exn option \<times> bool \<times> SteelBrowserSession \<times> trace" where
  "try_block env s t =
     (case create_session (post_sessions env) (uuid4 env) s t of
        (Inl e, s1, t1) \<Rightarrow> (Some e, False, s1, t1)
      | (Inr c, s1, t1) \<Rightarrow>
          (case new_browser env of
             Raises e \<Rightarrow> (Some e, False, s1, t1)
           | Returns \<Rightarrow>
               (let t2 = t1 @ [Attach c, Log INFO BrowserConnected]
                in case new_agent env of
                     Raises e \<Rightarrow> (Some e, True, s1, t2)
                   | Returns \<Rightarrow>
                       (let t3 = t2 @ [Log INFO RunningAgent, AgentRun]
                        in case agent_run env of
                             Raises e \<Rightarrow> (Some e, True, s1, t3)
                           | Returns \<Rightarrow>
                               (let t4 = t3 @ [Log INFO AgentCompleted]
                                in case get_session_details (get_session env) s1 t4 of
                                     (Inl e, t5) \<Rightarrow> (Some e, True, s1, t5)
                                   | (Inr d, t5) \<Rightarrow>
                                       (case (if truthy d
                                              then dict_get d ''sessionViewerUrl'' JNull
                                              else Inr JNull) of
                                          Inl e \<Rightarrow> (Some e, True, s1, t5)
                                        | Inr v \<Rightarrow>
                                            (let t6 = t5 @ [Log INFO WaitingBeforeCleanup, Sleep 5]
                                             in case sleep env of
                                                  Raises e \<Rightarrow> (Some e, True, s1, t6)
                                                | Returns \<Rightarrow> (None, True, s1, t6))))))))"

text \<open>\<^verbatim>\<open>except Exception as e\<close>: an \<^verbatim>\<open>Exception\<close> is logged twice and dropped, anything
  else stays pending through the \<^verbatim>\<open>finally\<close> block.\<close>

definition except_block :: "exn option \<Rightarrow> trace \<Rightarrow> exn option \<times> trace" where
  "except_block p t =
     (case p of
        None \<Rightarrow> (None, t)
      | Some e \<Rightarrow>
          if is_Exception e
          then (None, t @ [Log ERROR (AgentFailed e), Log ERROR (AgentTraceback e)])
          else (Some e, t))"

text \<open>The inner \<^verbatim>\<open>try\<close> of the \<^verbatim>\<open>finally\<close> block. Reading the unbound \<^verbatim>\<open>browser\<close>
  raises \<^verbatim>\<open>UnboundLocalError\<close>, which the handler catches like a failing close.\<close>

definition close_browser :: "environment \<Rightarrow> bool \<Rightarrow> trace \<Rightarrow> (exn + unit) \<times> trace" where
  "close_browser env bound t =
     (if bound then
        (case browser_close env of
           Returns \<Rightarrow> (Inr (), t @ [CloseBrowser, Log INFO BrowserClosed])
         | Raises e \<Rightarrow>
             if is_Exception e then (Inr (), t @ [CloseBrowser, Log ERROR (CloseFailed e)])
             else (Inl e, t @ [CloseBrowser]))
      else (Inr (), t @ [Log ERROR (CloseFailed UnboundLocalError)]))"

text \<open>The \<^verbatim>\<open>finally\<close> block. What the inner handler does not catch leaves the block
  before the release; otherwise the release runs and then the pending exception, if any,
  continues.\<close>

definition finally_block ::
  "environment \<Rightarrow> bool \<Rightarrow> SteelBrowserSession \<Rightarrow> exn option \<Rightarrow> trace
    \<Rightarrow> (exn + unit) \<times> trace" where
  "finally_block env bound s pending t =
     (case close_browser env bound t of
        (Inl e, t1) \<Rightarrow> (Inl e, t1)
      | (Inr x, t1) \<Rightarrow>
          (case release_session (post_release env) s t1 of
             (Inl e, t2) \<Rightarrow> (Inl e, t2)
           | (Inr y, t2) \<Rightarrow>
               (case pending of Some e \<Rightarrow> (Inl e, t2) | None \<Rightarrow> (Inr (), t2))))"

definition run_ai_agent_task :: "environment \<Rightarrow> string \<Rightarrow> (exn + unit) \<times> trace" where
  "run_ai_agent_task env url =
     (case try_block env (init url) [] of
        (p, bound, s, t) \<Rightarrow>
          (case except_block p t of
             (pending, t1) \<Rightarrow> finally_block env bound s pending t1))"

text \<open>\<^verbatim>\<open>test_basic_connection\<close> has no handler: whatever is raised ends it.\<close>

definition test_basic_connection :: "environment \<Rightarrow> string \<Rightarrow> (exn + unit) \<times> trace" where
  "test_basic_connection env url =
     (case create_session (post_sessions env) (uuid4 env) (init url) [] of
        (Inl e, s, t) \<Rightarrow> (Inl e, t)
      | (Inr c, s, t) \<Rightarrow>
          (let t1 = t @ [Sleep 30]
           in case sleep env of
                Raises e \<Rightarrow> (Inl e, t1)
              | Returns \<Rightarrow> release_session (post_release env) s t1))"

section \<open>The run of simple-test.py\<close>

text \<open>\<^verbatim>\<open>test_steel_cdp\<close>: the same three steps without the class. Both requests are
  issued without a \<^verbatim>\<open>timeout\<close> argument, the URLs are read by subscript, and nothing is
  caught. The \<^verbatim>\<open>async with\<close> block is one call into the Playwright collaborator.\<close>

definition test_steel_cdp :: "environment \<Rightarrow> (exn + unit) \<times> trace" where
  "test_steel_cdp env =
     (let i = str_uuid (uuid4 env);
          url = ''http://localhost:3000'';
          t1 = [Request \<lparr>rq_method = POST, rq_url = url @ ''/v1/sessions'',
                         rq_json = Some (JObj [(''sessionId'', JStr i)]), rq_timeout = None\<rparr>]
      in case post_sessions env of
           TransportFailure \<Rightarrow> (Inl RequestException, t1)
         | Response st b \<Rightarrow>
             if raise_for_status st then (Inl (HTTPError st), t1)
             else (case b of
                     None \<Rightarrow> (Inl JSONDecodeError, t1)
                   | Some j \<Rightarrow>
                       (case subscript j ''websocketUrl'' of
                          Inl e \<Rightarrow> (Inl e, t1)
                        | Inr w \<Rightarrow>
                            (case subscript j ''sessionViewerUrl'' of
                               Inl e \<Rightarrow> (Inl e, t1)
                             | Inr v \<Rightarrow>
                                 (let t2 = t1 @ [Playwright w]
                                  in case playwright env of
                                       Raises e \<Rightarrow> (Inl e, t2)
                                     | Returns \<Rightarrow>
                                         (let t3 = t2 @ [Request \<lparr>rq_method = POST,
                                                    rq_url = url @ ''/v1/sessions/'' @ i @ ''/release'',
                                                    rq_json = None, rq_timeout = None\<rparr>]
                                          in case post_release env of
                                               TransportFailure \<Rightarrow> (Inl RequestException, t3)
                                             | Response st2 b2 \<Rightarrow> (Inr (), t3)))))))"

section \<open>Auxiliary facts\<close>

lemma requests_of_append: "requests_of (a @ b) = requests_of a @ requests_of b"
  by (induction a rule: requests_of.induct) simp_all

lemma length_hex_pad: "length (hex_pad k n) = k"
  by (induction k arbitrary: n) simp_all

lemma length_str_uuid: "length (str_uuid u) = 36"
  by (simp add: str_uuid_def Let_def length_hex_pad)

lemma str_uuid_not_empty: "str_uuid u \<noteq> []"
  using length_str_uuid [of u] by auto

text \<open>Two UUIDs that print alike are the same UUID: the digits determine the value.\<close>

lemma hex_char_inj:
  assumes "d < 16" and "d' < 16" and "hex_char d = hex_char d'"
  shows "d = d'"
proof -
  have "distinct ''0123456789abcdef''" by simp
  moreover have "d < length ''0123456789abcdef''" "d' < length ''0123456789abcdef''"
    using assms by simp_all
  ultimately show ?thesis
    using assms(3) unfolding hex_char_def by (simp only: nth_eq_iff_index_eq)
qed

lemma hex_pad_inj:
  "hex_pad k n = hex_pad k m \<Longrightarrow> n mod 16 ^ k = m mod 16 ^ k"
proof (induction k arbitrary: n m)
  case 0
  then show ?case by simp
next
  case (Suc k)
  from Suc.prems have a: "hex_pad k (n div 16) = hex_pad k (m div 16)"
    and b: "hex_char (n mod 16) = hex_char (m mod 16)"
    by simp_all
  have c: "n mod 16 = m mod 16"
    using b by (intro hex_char_inj) simp_all
  have d: "(n div 16) mod 16 ^ k = (m div 16) mod 16 ^ k"
    using a by (rule Suc.IH)
  have "x mod 16 ^ Suc k = 16 * ((x div 16) mod 16 ^ k) + x mod 16" for x :: nat
    by (simp add: mod_mult2_eq)
  then show ?case using c d by simp
qed

lemma str_uuid_inj:
  assumes eq: "str_uuid u = str_uuid v"
  shows "u = v"
proof -
  define h where "h = hex_pad 32 (unat u)"
  define g where "g = hex_pad 32 (unat v)"
  have lh: "length h = 32" and lg: "length g = 32"
    by (simp_all add: h_def g_def length_hex_pad)
  have e: "take 8 h @ ''-'' @ take 4 (drop 8 h) @ ''-'' @ take 4 (drop 12 h) @ ''-''
         @ take 4 (drop 16 h) @ ''-'' @ drop 20 h
       = take 8 g @ ''-'' @ take 4 (drop 8 g) @ ''-'' @ take 4 (drop 12 g) @ ''-''
         @ take 4 (drop 16 g) @ ''-'' @ drop 20 g"
    using eq by (simp add: str_uuid_def Let_def h_def g_def)
  have p1: "take 8 h = take 8 g"
    and r1: "take 4 (drop 8 h) @ ''-'' @ take 4 (drop 12 h) @ ''-''
         @ take 4 (drop 16 h) @ ''-'' @ drop 20 h
       = take 4 (drop 8 g) @ ''-'' @ take 4 (drop 12 g) @ ''-''
         @ take 4 (drop 16 g) @ ''-'' @ drop 20 g"
    using e lh lg by simp_all
  have p2: "take 4 (drop 8 h) = take 4 (drop 8 g)"
    and r2: "take 4 (drop 12 h) @ ''-'' @ take 4 (drop 16 h) @ ''-'' @ drop 20 h
       = take 4 (drop 12 g) @ ''-'' @ take 4 (drop 16 g) @ ''-'' @ drop 20 g"
    using r1 lh lg by simp_all
  have p3: "take 4 (drop 12 h) = take 4 (drop 12 g)"
    and r3: "take 4 (drop 16 h) @ ''-'' @ drop 20 h = take 4 (drop 16 g) @ ''-'' @ drop 20 g"
    using r2 lh lg by simp_all
  have p4: "take 4 (drop 16 h) = take 4 (drop 16 g)" and p5: "drop 20 h = drop 20 g"
    using r3 lh lg by simp_all
  have t12: "take 12 x = take 8 x @ take 4 (drop 8 x)" for x :: string
    using take_add [of 8 4 x] by simp
  have t16: "take 16 x = take 12 x @ take 4 (drop 12 x)" for x :: string
    using take_add [of 12 4 x] by simp
  have t20: "take 20 x = take 16 x @ take 4 (drop 16 x)" for x :: string
    using take_add [of 16 4 x] by simp
  have "take 20 h = take 20 g"
    by (simp only: t20 t16 t12 p1 p2 p3 p4)
  then have "take 20 h @ drop 20 h = take 20 g @ drop 20 g"
    using p5 by simp
  then have "h = g"
    by (simp only: append_take_drop_id)
  then have "unat u mod 16 ^ 32 = unat v mod 16 ^ 32"
    unfolding h_def g_def by (rule hex_pad_inj)
  moreover have "unat u < 16 ^ 32" "unat v < 16 ^ 32"
    using unsigned_less [of u, where ?'a = nat] unsigned_less [of v, where ?'a = nat] by simp_all
  ultimately have "unat u = unat v" by simp
  then show "u = v" by (rule word_unat_eq_iff [THEN iffD2])
qed

text \<open>What every call of \<^verbatim>\<open>create_session\<close> does, whatever the service answers.\<close>

lemma create_session_fields:
  "session_id (fst (snd (create_session r u s t))) = Some (str_uuid u)
   \<and> api_url (fst (snd (create_session r u s t))) = api_url s"
  by (auto simp: create_session_def Let_def split: http_result.splits option.splits sum.splits)

lemma create_session_requests:
  "requests_of (snd (snd (create_session r u s t)))
     = requests_of t @ [create_request (api_url s) (str_uuid u)]"
  by (auto simp: create_session_def Let_def requests_of_append
           split: http_result.splits option.splits sum.splits)

text \<open>A release that gets past the guard issues its request and logs one record.\<close>

lemma release_session_trace:
  assumes "\<not> falsy_id (session_id s)"
  shows "\<exists>l m. release_session r s t
      = (Inr (), t @ [Request (release_request (api_url s) (fmt_id (session_id s))), Log l m])"
  using assms
  by (cases r) (auto simp: release_session_def release_attempt_def Let_def)

text \<open>The timeouts of the three requests of the session client.\<close>

lemma session_client_timeouts:
  "rq_timeout (create_request url i) = Some 30
   \<and> rq_timeout (details_request url i) = Some 10
   \<and> rq_timeout (release_request url i) = Some 10"
  by (simp add: create_request_def details_request_def release_request_def)

section \<open>Creating a session\<close>

text \<open>
  Claim C1, as amended. When the service answers the creation request with a 2xx status
  and a JSON object that holds a non-empty \<open>websocketUrl\<close> string, \<^verbatim>\<open>create_session\<close>
  returns that string and stores it as the connection endpoint, next to the whole answer:
  the session is Active and its endpoint is non-empty and the service's.
\<close>

theorem create_session_endpoint:
  assumes "r = Response st (Some (JObj kv))" and "200 \<le> st" and "st < 300"
    and "map_of kv ''websocketUrl'' = Some (JStr w)" and "w \<noteq> []"
  shows "fst (create_session r u s t) = Inr (JStr w)
    \<and> cdp_url (fst (snd (create_session r u s t))) = JStr w
    \<and> truthy (cdp_url (fst (snd (create_session r u s t))))
    \<and> session_data (fst (snd (create_session r u s t))) = JObj kv
    \<and> state (fst (snd (create_session r u s t))) = Active"
  using assms by (simp add: create_session_def raise_for_status_def state_def Let_def)

theorem create_session_endpoint_witness:
  "post_sessions served
     = Response 200 (Some (JObj [(''websocketUrl'', JStr ''ws://svc/cdp/S1''),
                                 (''sessionViewerUrl'', JStr ''http://svc/view/S1''),
                                 (''debugUrl'', JStr ''http://svc/debug/S1'')]))
   \<and> fst (create_session (post_sessions served) (uuid4 served)
            (init ''http://localhost:3000'') [])
       = Inr (JStr ''ws://svc/cdp/S1'')
   \<and> truthy (cdp_url (fst (snd (create_session (post_sessions served) (uuid4 served)
                                  (init ''http://localhost:3000'') []))))
   \<and> state (fst (snd (create_session (post_sessions served) (uuid4 served)
                         (init ''http://localhost:3000'') [])))
       = Active"
  using create_session_endpoint
          [of "post_sessions served" 200
              "[(''websocketUrl'', JStr ''ws://svc/cdp/S1''),
                (''sessionViewerUrl'', JStr ''http://svc/view/S1''),
                (''debugUrl'', JStr ''http://svc/debug/S1'')]"
              "''ws://svc/cdp/S1''" "uuid4 served" "init ''http://localhost:3000''" "[]"]
  by (simp add: served_def)

text \<open>
  The sentence of the spec promises the service's URL for every 2xx answer. An answer of
  200 with the empty object has no \<open>websocketUrl\<close>, and the call returns the built-in
  default address instead.
\<close>

theorem create_session_endpoint_counterexample:
  "fst (create_session (Response 200 (Some (JObj []))) (uuid4 served)
          (init ''http://localhost:3000'') [])
     = Inr (JStr ''ws://localhost:3000/'')
   \<and> subscript (JObj []) ''websocketUrl'' = Inl KeyError"
  by (simp add: create_session_def raise_for_status_def Let_def)

text \<open>
  Claim C2, as amended. When the service answers the creation request with a status
  from 400 to 599, \<^verbatim>\<open>create_session\<close> raises \<^verbatim>\<open>HTTPError\<close> to its caller after that one
  request, and the session's lifecycle state is what it was: no endpoint is stored.
\<close>

theorem create_session_http_error:
  assumes "r = Response st b" and "400 \<le> st" and "st < 600"
  shows "create_session r u s t
      = (Inl (HTTPError st), s\<lparr>session_id := Some (str_uuid u)\<rparr>,
         t @ [Log INFO (CreatingSession (str_uuid u)),
              Request (create_request (api_url s) (str_uuid u))])
    \<and> state (s\<lparr>session_id := Some (str_uuid u)\<rparr>) = state s"
  using assms by (simp add: create_session_def raise_for_status_def state_def Let_def)

theorem create_session_http_error_witness:
  "(400::int) \<le> 503 \<and> (503::int) < 600
   \<and> create_session (Response 503 None) (uuid4 served) (init ''http://localhost:3000'') []
      = (Inl (HTTPError 503),
         (init ''http://localhost:3000'')\<lparr>session_id := Some (str_uuid (uuid4 served))\<rparr>,
         [Log INFO (CreatingSession (str_uuid (uuid4 served))),
          Request (create_request ''http://localhost:3000'' (str_uuid (uuid4 served)))])
   \<and> state ((init ''http://localhost:3000'')\<lparr>session_id := Some (str_uuid (uuid4 served))\<rparr>)
      = Uncreated"
  using create_session_http_error
          [of "Response 503 None" 503 None "uuid4 served" "init ''http://localhost:3000''" "[]"]
  by (simp add: init_def state_def)

text \<open>
  A status outside 2xx is not always an error to \<^verbatim>\<open>raise_for_status\<close>: an answer of
  300 that carries the session's URLs goes through, and the session becomes Active.
\<close>

theorem create_session_redirect_counterexample:
  "fst (create_session
          (Response 300 (Some (JObj [(''websocketUrl'', JStr ''ws://svc/cdp/S1'')])))
          (uuid4 served) (init ''http://localhost:3000'') [])
     = Inr (JStr ''ws://svc/cdp/S1'')
   \<and> state (fst (snd (create_session
          (Response 300 (Some (JObj [(''websocketUrl'', JStr ''ws://svc/cdp/S1'')])))
          (uuid4 served) (init ''http://localhost:3000'') [])))
     = Active"
  by (simp add: create_session_def raise_for_status_def state_def Let_def)

text \<open>
  Claim C10. When the creation request fails in transport, or is answered with a status
  that \<^verbatim>\<open>raise_for_status\<close> rejects, \<^verbatim>\<open>create_session\<close> raises and the object differs
  from what it was in the id alone, which is the UUID just drawn: the endpoint and the
  stored answer keep their value, which on a new object is \<^verbatim>\<open>None\<close>.
\<close>

theorem create_session_failure_frame:
  assumes "r = TransportFailure \<or> r = Response st b \<and> raise_for_status st"
  shows "fst (create_session r u s t)
           = Inl (if r = TransportFailure then RequestException else HTTPError st)
    \<and> fst (snd (create_session r u s t)) = s\<lparr>session_id := Some (str_uuid u)\<rparr>
    \<and> cdp_url (fst (snd (create_session r u s t))) = cdp_url s
    \<and> session_data (fst (snd (create_session r u s t))) = session_data s
    \<and> session_id (fst (snd (create_session r u s t))) = Some (str_uuid u)
    \<and> cdp_url (init url) = JNull \<and> session_data (init url) = JNull"
  using assms by (auto simp: create_session_def Let_def init_def)

theorem create_session_failure_frame_witness:
  "fst (create_session TransportFailure (uuid4 served) (init ''http://localhost:3000'') [])
     = Inl RequestException
   \<and> fst (snd (create_session TransportFailure (uuid4 served)
                  (init ''http://localhost:3000'') []))
     = \<lparr>api_url = ''http://localhost:3000'', session_id = Some (str_uuid (uuid4 served)),
        cdp_url = JNull, session_data = JNull\<rparr>"
  using create_session_failure_frame
          [of TransportFailure 0 None "uuid4 served" "init ''http://localhost:3000''" "[]"]
  by (simp add: init_def)

text \<open>
  Claim C8. \<^verbatim>\<open>create_session\<close> sets the id to the UUID drawn in that call, whatever the
  id was before, and its request, issued after that, carries the id as \<open>sessionId\<close> in
  the body. The inspect and the release request made on the object afterwards address
  that same id in their path. Different UUIDs give different ids.
\<close>

theorem session_id_correlates:
  "session_id (fst (snd (create_session r u s t))) = Some (str_uuid u)
   \<and> requests_of (snd (snd (create_session r u s t)))
       = requests_of t @ [create_request (api_url s) (str_uuid u)]
   \<and> rq_json (create_request (api_url s) (str_uuid u))
       = Some (JObj [(''sessionId'', JStr (str_uuid u))])
   \<and> requests_of (snd (get_session_details r2 (fst (snd (create_session r u s t))) t2))
       = requests_of t2 @ [details_request (api_url s) (str_uuid u)]
   \<and> rq_url (details_request (api_url s) (str_uuid u))
       = api_url s @ ''/v1/sessions/'' @ str_uuid u
   \<and> requests_of (snd (release_session r3 (fst (snd (create_session r u s t))) t3))
       = requests_of t3 @ [release_request (api_url s) (str_uuid u)]
   \<and> rq_url (release_request (api_url s) (str_uuid u))
       = api_url s @ ''/v1/sessions/'' @ str_uuid u @ ''/release''
   \<and> (str_uuid u = str_uuid v) = (u = v)"
proof -
  let ?s = "fst (snd (create_session r u s t))"
  have f: "session_id ?s = Some (str_uuid u)" "api_url ?s = api_url s"
    using create_session_fields [of r u s t] by simp_all
  have d: "requests_of (snd (get_session_details r2 ?s t2))
       = requests_of t2 @ [details_request (api_url s) (str_uuid u)]"
    by (cases r2)
       (simp_all add: get_session_details_def Let_def f requests_of_append split: option.splits)
  have "\<not> falsy_id (session_id ?s)"
    by (simp add: f str_uuid_not_empty)
  from release_session_trace [OF this, of r3 t3]
  have rl: "requests_of (snd (release_session r3 ?s t3))
       = requests_of t3 @ [release_request (api_url s) (str_uuid u)]"
    by (auto simp: f requests_of_append)
  have inj: "(str_uuid u = str_uuid v) = (u = v)"
    using str_uuid_inj [of u v] by blast
  show ?thesis
    by (simp add: f d rl inj create_session_requests)
       (simp add: create_request_def details_request_def release_request_def)
qed

section \<open>Inspecting a session\<close>

text \<open>
  Claim C6. Whenever the service answers the inspect request with a status other than
  200, which is what it does for a session it does not know or has released,
  \<^verbatim>\<open>get_session_details\<close> returns \<^verbatim>\<open>None\<close> and raises nothing.
\<close>

theorem get_session_details_absent:
  "st \<noteq> 200 \<Longrightarrow>
   get_session_details (Response st b) s t
     = (Inr JNull, t @ [Request (details_request (api_url s) (fmt_id (session_id s)))])"
  by (simp add: get_session_details_def)

theorem get_session_details_absent_witness:
  "(404::int) \<noteq> 200
   \<and> get_session_details (Response 404 (Some (JObj [(''message'', JStr ''Session not found'')])))
        ((init ''http://localhost:3000'')\<lparr>session_id := Some ''S1''\<rparr>) []
     = (Inr JNull, [Request (details_request ''http://localhost:3000'' ''S1'')])"
  using get_session_details_absent
          [of 404 "Some (JObj [(''message'', JStr ''Session not found'')])"
              "(init ''http://localhost:3000'')\<lparr>session_id := Some ''S1''\<rparr>" "[]"]
  by (simp add: init_def)

section \<open>Releasing a session\<close>

text \<open>
  Claim C3. \<^verbatim>\<open>release_session\<close> never raises, whatever the outcome of its request, and a
  second call on the same session, whatever the outcome of that one, does not raise
  either. A transport failure is logged as an error and a status other than 200 as a
  warning, and that is all that comes of them.
\<close>

theorem release_session_never_raises:
  "fst (release_session r s t) = Inr ()
   \<and> fst (release_session r2 s (snd (release_session r s t))) = Inr ()
   \<and> (\<not> falsy_id (session_id s) \<and> r = TransportFailure \<longrightarrow>
        snd (release_session r s t)
          = t @ [Request (release_request (api_url s) (fmt_id (session_id s))),
                 Log ERROR (ReleaseFailed RequestException)])
   \<and> (\<not> falsy_id (session_id s) \<and> r = Response st b \<and> st \<noteq> 200 \<longrightarrow>
        snd (release_session r s t)
          = t @ [Request (release_request (api_url s) (fmt_id (session_id s))),
                 Log WARNING (ReleaseStatus st)])"
proof -
  have ok: "fst (release_session x s y) = Inr ()" for x y
    by (cases x) (simp_all add: release_session_def release_attempt_def Let_def)
  have fail: "snd (release_session TransportFailure s t)
          = t @ [Request (release_request (api_url s) (fmt_id (session_id s))),
                 Log ERROR (ReleaseFailed RequestException)]"
    if "\<not> falsy_id (session_id s)"
    using that by (simp add: release_session_def release_attempt_def Let_def)
  have status: "snd (release_session (Response st b) s t)
          = t @ [Request (release_request (api_url s) (fmt_id (session_id s))),
                 Log WARNING (ReleaseStatus st)]"
    if "\<not> falsy_id (session_id s)" and "st \<noteq> 200"
    using that by (simp add: release_session_def release_attempt_def Let_def)
  from ok fail status show ?thesis by blast
qed

theorem release_session_never_raises_witness:
  "\<not> falsy_id (session_id ((init ''http://localhost:3000'')\<lparr>session_id := Some ''S1''\<rparr>))
   \<and> (404::int) \<noteq> 200
   \<and> release_session (Response 404 None)
        ((init ''http://localhost:3000'')\<lparr>session_id := Some ''S1''\<rparr>) []
       = (Inr (), [Request (release_request ''http://localhost:3000'' ''S1''),
                   Log WARNING (ReleaseStatus 404)])
   \<and> release_session TransportFailure
        ((init ''http://localhost:3000'')\<lparr>session_id := Some ''S1''\<rparr>)
        (snd (release_session (Response 404 None)
                ((init ''http://localhost:3000'')\<lparr>session_id := Some ''S1''\<rparr>) []))
       = (Inr (), [Request (release_request ''http://localhost:3000'' ''S1''),
                   Log WARNING (ReleaseStatus 404),
                   Request (release_request ''http://localhost:3000'' ''S1''),
                   Log ERROR (ReleaseFailed RequestException)])"
  using release_session_never_raises
          [of "Response 404 None" "(init ''http://localhost:3000'')\<lparr>session_id := Some ''S1''\<rparr>"
              "[]" TransportFailure 404 None]
        release_session_never_raises
          [of TransportFailure "(init ''http://localhost:3000'')\<lparr>session_id := Some ''S1''\<rparr>"
              "[Request (release_request ''http://localhost:3000'' ''S1''),
                Log WARNING (ReleaseStatus 404)]"
              TransportFailure 404 None]
  by (simp add: init_def prod_eq_iff)

text \<open>
  Claim C4. Releasing a session that was never created, one whose id is absent, does
  nothing: whatever the service would have answered, the call returns at once without
  an error and the trace is the one it was given, so no request has been issued.
\<close>

theorem release_uncreated_noop:
  "session_id s = None \<Longrightarrow> release_session r s t = (Inr (), t)"
  by (simp add: release_session_def)

theorem release_uncreated_noop_witness:
  "session_id (init ''http://localhost:3000'') = None
   \<and> release_session TransportFailure (init ''http://localhost:3000'') [] = (Inr (), [])"
  using release_uncreated_noop [of "init ''http://localhost:3000''" TransportFailure "[]"]
  by (simp add: init_def)

section \<open>The runs\<close>

text \<open>
  Claim C7. The claim asks for the release on every exit path, cancellation included.
  The \<^verbatim>\<open>finally\<close> block of \<^verbatim>\<open>run_ai_agent_task\<close> is written for that: a cancellation of
  the agent's run still reaches the close and the release. It misses one case. When the
  agent has finished and the task is cancelled while it waits for the browser to close,
  the cancellation is no \<^verbatim>\<open>Exception\<close>, passes the inner handler and leaves the block:
  the close is the last event of the run and no release request is issued.
\<close>

theorem cancelled_close_skips_release:
  "run_ai_agent_task (served\<lparr>browser_close := Raises CancelledError\<rparr>) ''http://localhost:3000''
     = (Inl CancelledError,
        [Log INFO (CreatingSession (str_uuid (uuid4 served))),
         Request (create_request ''http://localhost:3000'' (str_uuid (uuid4 served))),
         Log INFO (SessionCreated (str_uuid (uuid4 served)) (JStr ''ws://svc/cdp/S1'')
                     (JStr ''http://svc/debug/S1'') (JStr ''http://svc/view/S1'')),
         Attach (JStr ''ws://svc/cdp/S1''), Log INFO BrowserConnected,
         Log INFO RunningAgent, AgentRun, Log INFO AgentCompleted,
         Request (details_request ''http://localhost:3000'' (str_uuid (uuid4 served))),
         Log INFO WaitingBeforeCleanup, Sleep 5, CloseBrowser])
   \<and> requests_of (snd (run_ai_agent_task (served\<lparr>browser_close := Raises CancelledError\<rparr>)
                          ''http://localhost:3000''))
     = [create_request ''http://localhost:3000'' (str_uuid (uuid4 served)),
        details_request ''http://localhost:3000'' (str_uuid (uuid4 served))]
   \<and> run_ai_agent_task (served\<lparr>agent_run := Raises CancelledError\<rparr>) ''http://localhost:3000''
     = (Inl CancelledError,
        [Log INFO (CreatingSession (str_uuid (uuid4 served))),
         Request (create_request ''http://localhost:3000'' (str_uuid (uuid4 served))),
         Log INFO (SessionCreated (str_uuid (uuid4 served)) (JStr ''ws://svc/cdp/S1'')
                     (JStr ''http://svc/debug/S1'') (JStr ''http://svc/view/S1'')),
         Attach (JStr ''ws://svc/cdp/S1''), Log INFO BrowserConnected,
         Log INFO RunningAgent, AgentRun,
         CloseBrowser, Log INFO BrowserClosed,
         Request (release_request ''http://localhost:3000'' (str_uuid (uuid4 served))),
         Log INFO (SessionReleased (str_uuid (uuid4 served)))])"
  by (simp add: run_ai_agent_task_def try_block_def except_block_def finally_block_def
      close_browser_def create_session_def get_session_details_def release_session_def
      release_attempt_def raise_for_status_def served_def init_def Let_def
      str_uuid_not_empty)

text \<open>
  Claim C5. The claim asks that nothing be released after a creation that failed. The
  guard of \<^verbatim>\<open>release_session\<close> is there for a session that was never created, and
  \<^verbatim>\<open>test_basic_connection\<close> issues no release when the creation call times out. In
  \<^verbatim>\<open>run_ai_agent_task\<close> the guard does not hold the release back: \<^verbatim>\<open>create_session\<close>
  has set the id before its request went out, so that after the same timeout a release
  request for that id follows the creation request.
\<close>

theorem failed_creation_still_releases:
  "fst (create_session TransportFailure (uuid4 served) (init ''http://localhost:3000'') [])
     = Inl RequestException
   \<and> requests_of (snd (run_ai_agent_task (served\<lparr>post_sessions := TransportFailure\<rparr>)
                          ''http://localhost:3000''))
     = [create_request ''http://localhost:3000'' (str_uuid (uuid4 served)),
        release_request ''http://localhost:3000'' (str_uuid (uuid4 served))]
   \<and> test_basic_connection (served\<lparr>post_sessions := TransportFailure\<rparr>)
        ''http://localhost:3000''
     = (Inl RequestException,
        [Log INFO (CreatingSession (str_uuid (uuid4 served))),
         Request (create_request ''http://localhost:3000'' (str_uuid (uuid4 served)))])"
  by (simp add: run_ai_agent_task_def test_basic_connection_def try_block_def
      except_block_def finally_block_def close_browser_def create_session_def
      release_session_def release_attempt_def served_def init_def Let_def
      str_uuid_not_empty)

text \<open>
  Claim C9. The claim asks for a fixed timeout on every network call. The session client
  of ai-agent.py passes one on each of its three requests (\<open>session_client_timeouts\<close>).
  \<^verbatim>\<open>test_steel_cdp\<close> of simple-test.py does not: in a run that goes through, it issues
  its creation and its release request, and both go out with no timeout at all.
\<close>

theorem test_steel_cdp_no_timeout:
  "fst (test_steel_cdp served) = Inr ()
   \<and> map rq_timeout (requests_of (snd (test_steel_cdp served))) = [None, None]"
  by (simp add: test_steel_cdp_def served_def raise_for_status_def Let_def)

end
